theory Spec2Isabelle
  imports Main
begin

section \<open>Python exceptions\<close>

text \<open>
  The functions of \<^verbatim>\<open>mkgfd/utils.py\<close> are embedded as HOL functions. A Python
  exception that leaves a function is the left injection of a sum type.
\<close>

datatype exn = ValueError | TypeError | AttributeError | OverflowError | KeyError

section \<open>DictDefault\<close>

text \<open>
  \<^verbatim>\<open>class DictDefault(dict)\<close> has one slot, \<^verbatim>\<open>_default\<close>, beside the storage it inherits
  from \<^verbatim>\<open>dict\<close>. The storage is the partial map \<open>items\<close>.
\<close>

record ('k, 'v) DictDefault =
  default_val :: 'v
  items :: "'k \<rightharpoonup> 'v"

definition DictDefault_init :: "'v \<Rightarrow> ('k, 'v) DictDefault" where
  \<comment> \<open>\<^verbatim>\<open>DictDefault(default)\<close>: no positional or keyword items.\<close>
  "DictDefault_init d = \<lparr>default_val = d, items = Map.empty\<rparr>"

definition missing :: "('k, 'v) DictDefault \<Rightarrow> 'k \<Rightarrow> 'v \<times> ('k, 'v) DictDefault" where
  \<comment> \<open>\<^verbatim>\<open>__missing__\<close>: returns \<^verbatim>\<open>self._default\<close>; the dictionary is handed back as it was.\<close>
  "missing d key = (default_val d, d)"

definition getitem :: "('k, 'v) DictDefault \<Rightarrow> 'k \<Rightarrow> 'v \<times> ('k, 'v) DictDefault" where
  \<comment> \<open>\<^verbatim>\<open>d[key]\<close>: \<^verbatim>\<open>dict.__getitem__\<close> calls \<^verbatim>\<open>__missing__\<close> of a subclass when the key
      is not stored. The second component is the dictionary after the lookup.\<close>
  "getitem d key = (case items d key of Some v \<Rightarrow> (v, d) | None \<Rightarrow> missing d key)"

definition setitem :: "('k, 'v) DictDefault \<Rightarrow> 'k \<Rightarrow> 'v \<Rightarrow> ('k, 'v) DictDefault" where
  \<comment> \<open>\<^verbatim>\<open>d[key] = value\<close>, inherited from \<^verbatim>\<open>dict\<close>.\<close>
  "setitem d key v = d\<lparr>items := (items d)(key \<mapsto> v)\<rparr>"

definition keys :: "('k, 'v) DictDefault \<Rightarrow> 'k set" where
  \<comment> \<open>\<^verbatim>\<open>d.keys()\<close>, inherited from \<^verbatim>\<open>dict\<close>.\<close>
  "keys d = dom (items d)"

definition contains :: "('k, 'v) DictDefault \<Rightarrow> 'k \<Rightarrow> bool" where
  \<comment> \<open>\<^verbatim>\<open>key in d\<close>, inherited from \<^verbatim>\<open>dict\<close>: it never consults \<^verbatim>\<open>__missing__\<close>.\<close>
  "contains d key = (key \<in> dom (items d))"

definition dd_get :: "('k, 'v) DictDefault \<Rightarrow> 'k \<Rightarrow> 'v" where
  \<comment> \<open>The value of the expression \<^verbatim>\<open>d[key]\<close>.\<close>
  "dd_get d key = fst (getitem d key)"

subsection \<open>Set objects on a heap\<close>

text \<open>
  \<^verbatim>\<open>DictDefault(set())\<close> stores a reference to one mutable set object. Where the identity
  of that object matters, the values of the dictionary are references and the set
  objects live in an explicit heap.
\<close>

type_synonym ref = nat
type_synonym 'a heap = "ref \<rightharpoonup> 'a set"

definition set_add :: "'a heap \<Rightarrow> ref \<Rightarrow> 'a \<Rightarrow> 'a heap" where
  \<comment> \<open>\<^verbatim>\<open>s.add(x)\<close> on the set object at reference \<open>r\<close>: an update in place.\<close>
  "set_add h r x = (case h r of None \<Rightarrow> h | Some s \<Rightarrow> h(r \<mapsto> insert x s))"

definition dd_add :: "('k, 'a set) DictDefault \<Rightarrow> 'k \<Rightarrow> 'a \<Rightarrow> ('k, 'a set) DictDefault" where
  \<comment> \<open>\<^verbatim>\<open>d[key].add(x)\<close> where the values are sets, each stored set object being
      referenced from its own key only (the builders below store a fresh \<^verbatim>\<open>set()\<close> or
      \<^verbatim>\<open>{x}\<close> per key): the stored set is updated in place; for a key that is not stored
      the object that \<^verbatim>\<open>__missing__\<close> returns, the default itself, is updated.\<close>
  "dd_add d key x =
     (case items d key of
        Some s \<Rightarrow> d\<lparr>items := (items d)(key \<mapsto> insert x s)\<rparr>
      | None \<Rightarrow> d\<lparr>default_val := insert x (default_val d)\<rparr>)"

section \<open>Graphs of rdflib terms\<close>

text \<open>
  The terms of rdflib: \<^verbatim>\<open>URIRef\<close>, \<^verbatim>\<open>BNode\<close> and \<^verbatim>\<open>Literal\<close>. A literal has a
  lexical form, an optional datatype (a \<^verbatim>\<open>URIRef\<close>) and an optional language tag; two
  terms are equal when they are of the same class and agree on all of these. A graph is
  the list of its triples in the order in which \<^verbatim>\<open>g.triples\<close> enumerates them.
\<close>

datatype resource =
    URIRef string
  | BNode string
  | Literal (lexical: string) (datatype_of: "resource option") (language_of: "string option")

type_synonym triple = "resource \<times> resource \<times> resource"
type_synonym graph = "triple list"

definition RDF_type :: resource where
  "RDF_type = URIRef ''http://www.w3.org/1999/02/22-rdf-syntax-ns#type''"

definition RDFS_Class :: resource where
  "RDFS_Class = URIRef ''http://www.w3.org/2000/01/rdf-schema#Class''"

definition RDFS_label :: resource where
  "RDFS_label = URIRef ''http://www.w3.org/2000/01/rdf-schema#label''"

definition XSD_string :: resource where
  "XSD_string = URIRef ''http://www.w3.org/2001/XMLSchema#string''"

definition XSD_anyType :: resource where
  "XSD_anyType = URIRef ''http://www.w3.org/2001/XMLSchema#anyType''"

definition subjects :: "graph \<Rightarrow> resource list" where
  \<comment> \<open>\<^verbatim>\<open>g.subjects()\<close>: one subject per triple.\<close>
  "subjects g = map (\<lambda>(s, p, ob). s) g"

definition objects :: "graph \<Rightarrow> resource list" where
  \<comment> \<open>\<^verbatim>\<open>g.objects()\<close>: one object per triple.\<close>
  "objects g = map (\<lambda>(s, p, ob). ob) g"

definition objects_of :: "graph \<Rightarrow> resource \<Rightarrow> resource \<Rightarrow> resource list" where
  \<comment> \<open>\<^verbatim>\<open>g.objects(subject, predicate)\<close>.\<close>
  "objects_of g subj pred =
     map (\<lambda>(s, p, ob). ob) (filter (\<lambda>(s, p, ob). s = subj \<and> p = pred) g)"

fun isinstance_URIRef :: "resource \<Rightarrow> bool" where
  "isinstance_URIRef (URIRef u) = True"
| "isinstance_URIRef r = False"

fun isinstance_Literal :: "resource \<Rightarrow> bool" where
  "isinstance_Literal (Literal lx dt lang) = True"
| "isinstance_Literal r = False"

section \<open>The index builders\<close>

text \<open>
  The two type indices are Python dictionaries with the two keys \<^verbatim>\<open>'object-to-type'\<close>
  and \<^verbatim>\<open>'type-to-object'\<close>, each holding a DictDefault.
\<close>

record 'v type_map =
  object_to_type :: "(resource, 'v) DictDefault"
  type_to_object :: "(resource, resource set) DictDefault"

subsection \<open>generate\_data\_type\_map\<close>

definition type_map_keys :: "string list" where
  \<comment> \<open>\<^verbatim>\<open>data_type_map.keys()\<close>: the keys of the outer dictionary, two Python strings.\<close>
  "type_map_keys = [''object-to-type'', ''type-to-object'']"

definition term_eq_str :: "resource \<Rightarrow> string \<Rightarrow> bool" where
  \<comment> \<open>\<^verbatim>\<open>term == s\<close> for an rdflib term and a plain \<^verbatim>\<open>str\<close>: rdflib's
      \<^verbatim>\<open>Identifier.__eq__\<close> answers False when the two classes differ.\<close>
  "term_eq_str t s = False"

definition in_type_map_keys :: "resource \<Rightarrow> bool" where
  \<comment> \<open>\<^verbatim>\<open>dtype in data_type_map.keys()\<close>.\<close>
  "in_type_map_keys dtype = list_ex (term_eq_str dtype) type_map_keys"

definition literal_dtype :: "resource \<Rightarrow> resource" where
  \<comment> \<open>\<^verbatim>\<open>dtype = o.datatype\<close>, replaced when it is None.\<close>
  "literal_dtype ob =
     (case datatype_of ob of
        Some d \<Rightarrow> d
      | None \<Rightarrow> if language_of ob \<noteq> None then XSD_string else XSD_anyType)"

definition data_type_step :: "resource option type_map \<Rightarrow> resource \<Rightarrow> resource option type_map" where
  \<comment> \<open>The body of the loop over \<^verbatim>\<open>g.objects()\<close>.\<close>
  "data_type_step m ob =
     (if \<not> isinstance_Literal ob then m
      else
        let dtype = literal_dtype ob;
            t2o = (if \<not> in_type_map_keys dtype
                   then setitem (type_to_object m) dtype {}
                   else type_to_object m);
            t2o = dd_add t2o dtype ob;
            o2t = setitem (object_to_type m) ob (Some dtype)
        in \<lparr>object_to_type = o2t, type_to_object = t2o\<rparr>)"

fun data_type_loop :: "resource option type_map \<Rightarrow> resource list \<Rightarrow> resource option type_map" where
  "data_type_loop m [] = m"
| "data_type_loop m (ob # obs) = data_type_loop (data_type_step m ob) obs"

definition generate_data_type_map :: "graph \<Rightarrow> resource option type_map" where
  "generate_data_type_map g =
     data_type_loop
       \<lparr>object_to_type = DictDefault_init None, type_to_object = DictDefault_init {}\<rparr>
       (objects g)"

subsection \<open>generate\_object\_type\_map\<close>

definition object_type_step :: "resource set type_map \<Rightarrow> resource \<Rightarrow> resource \<Rightarrow> resource set type_map" where
  \<comment> \<open>The body of the loop over \<^verbatim>\<open>ctypes\<close>, for the entity \<open>e\<close>.\<close>
  "object_type_step m e ctype =
     (let t2o = (if ctype \<notin> keys (type_to_object m)
                 then setitem (type_to_object m) ctype {}
                 else type_to_object m);
          o2t = (if e \<notin> keys (object_to_type m)
                 then setitem (object_to_type m) e {}
                 else object_to_type m)
      in \<lparr>object_to_type = dd_add o2t e ctype, type_to_object = dd_add t2o ctype e\<rparr>)"

fun object_type_inner :: "resource set type_map \<Rightarrow> resource \<Rightarrow> resource list \<Rightarrow> resource set type_map" where
  "object_type_inner m e [] = m"
| "object_type_inner m e (ctype # ctypes) = object_type_inner (object_type_step m e ctype) e ctypes"

definition ctypes_of :: "graph \<Rightarrow> resource \<Rightarrow> resource list" where
  \<comment> \<open>\<^verbatim>\<open>ctypes\<close> after the test on its length.\<close>
  "ctypes_of g e =
     (let ctypes = objects_of g e RDF_type
      in if length ctypes \<le> 0 then ctypes @ [RDFS_Class] else ctypes)"

fun object_type_loop :: "graph \<Rightarrow> resource set type_map \<Rightarrow> resource list \<Rightarrow> resource set type_map" where
  "object_type_loop g m [] = m"
| "object_type_loop g m (e # es) =
     object_type_loop g
       (if \<not> isinstance_URIRef e then m else object_type_inner m e (ctypes_of g e)) es"

definition generate_object_type_map :: "graph \<Rightarrow> resource set type_map" where
  "generate_object_type_map g =
     object_type_loop g
       \<lparr>object_to_type = DictDefault_init {}, type_to_object = DictDefault_init {}\<rparr>
       (subjects g)"

subsection \<open>generate\_predicate\_map\<close>

record predicate_entry =
  forwards :: "(resource, resource set) DictDefault"
  backwards :: "(resource, resource set) DictDefault"

type_synonym predicate_map = "resource \<rightharpoonup> predicate_entry"

definition predicate_step :: "predicate_map \<Rightarrow> triple \<Rightarrow> predicate_map" where
  \<comment> \<open>The body of the loop over \<^verbatim>\<open>g.triples((None, None, None))\<close>. The entry of the
      predicate is created when missing, then both of its maps are updated in place.\<close>
  "predicate_step pm t =
     (case t of (lhs, predicate, rhs) \<Rightarrow>
        let entry = (case pm predicate of
                       None \<Rightarrow> \<lparr>forwards = DictDefault_init {}, backwards = DictDefault_init {}\<rparr>
                     | Some en \<Rightarrow> en);
            fw = (if lhs \<notin> keys (forwards entry)
                  then setitem (forwards entry) lhs {rhs}
                  else dd_add (forwards entry) lhs rhs);
            bw = (if rhs \<notin> keys (backwards entry)
                  then setitem (backwards entry) rhs {lhs}
                  else dd_add (backwards entry) rhs lhs)
        in pm(predicate \<mapsto> \<lparr>forwards = fw, backwards = bw\<rparr>))"

fun predicate_loop :: "predicate_map \<Rightarrow> graph \<Rightarrow> predicate_map" where
  "predicate_loop pm [] = pm"
| "predicate_loop pm (t # ts) = predicate_loop (predicate_step pm t) ts"

definition generate_predicate_map :: "graph \<Rightarrow> predicate_map" where
  "generate_predicate_map g = predicate_loop Map.empty g"

subsection \<open>predicate\_frequency\<close>

text \<open>
  Modelled from the spec: the class of assertions is declared in \<^verbatim>\<open>mkgfd.structures\<close>,
  which is not among the sources. An assertion is an ordered triple of a left-hand side,
  a predicate and a right-hand side; each side is a concrete resource or a type variable
  of one of three kinds, carrying the attribute \<^verbatim>\<open>type\<close>. Two sides are equal when they
  are the same resource or type variables of the same kind and type.
\<close>

datatype var_kind = ObjectTypeVariable | DataTypeVariable | MultiModalNode

datatype node = Resource resource | TypeVariable var_kind resource

record assertion =
  lhs :: node
  predicate :: resource
  rhs :: node

definition predicate_frequency :: "predicate_map \<Rightarrow> assertion \<Rightarrow> resource set \<Rightarrow> exn + nat" where
  \<comment> \<open>\<^verbatim>\<open>predicate_map\<close> is a plain \<^verbatim>\<open>dict\<close>: subscripting it with a key it does not hold
      raises KeyError.\<close>
  "predicate_frequency predicate_map a assertion_domain =
     (case predicate_map (predicate a) of
        None \<Rightarrow> Inl KeyError
      | Some entry \<Rightarrow> Inr (card (assertion_domain \<inter> keys (forwards entry))))"

section \<open>The equivalence engine\<close>

text \<open>
  The cache holds the entity-type index and the literal-datatype index.
\<close>

record cache =
  object_type_map :: "resource set type_map"
  data_type_map :: "resource option type_map"

fun isinstance_TypeVariable :: "node \<Rightarrow> bool" where
  "isinstance_TypeVariable (TypeVariable k t) = True"
| "isinstance_TypeVariable (Resource r) = False"

fun isinstance_ObjectTypeVariable :: "node \<Rightarrow> bool" where
  "isinstance_ObjectTypeVariable (TypeVariable k t) = (k = ObjectTypeVariable)"
| "isinstance_ObjectTypeVariable (Resource r) = False"

fun var_type :: "node \<Rightarrow> resource option" where
  \<comment> \<open>The attribute \<^verbatim>\<open>type\<close>; a concrete resource has none, and the source reads it
      only behind an \<^verbatim>\<open>isinstance\<close> test.\<close>
  "var_type (TypeVariable k t) = Some t"
| "var_type (Resource r) = None"

fun isSameType :: "node \<Rightarrow> node \<Rightarrow> cache \<Rightarrow> bool" where
  \<comment> \<open>First \<^verbatim>\<open>if\<close>: an ObjectTypeVariable against a \<^verbatim>\<open>URIRef\<close> that is a stored key; the
      loop over the stored classes returns True when one of them equals the type. Second
      \<^verbatim>\<open>if\<close>: a DataTypeVariable or MultiModalNode against a \<^verbatim>\<open>Literal\<close> that is a
      stored key. Everything else falls through to \<^verbatim>\<open>return False\<close>.\<close>
  "isSameType (TypeVariable ObjectTypeVariable t) (Resource (URIRef u)) c =
     (URIRef u \<in> keys (object_to_type (object_type_map c))
      \<and> t \<in> dd_get (object_to_type (object_type_map c)) (URIRef u))"
| "isSameType (TypeVariable DataTypeVariable t) (Resource (Literal lx dt lang)) c =
     (Literal lx dt lang \<in> keys (object_to_type (data_type_map c))
      \<and> Some t = dd_get (object_to_type (data_type_map c)) (Literal lx dt lang))"
| "isSameType (TypeVariable MultiModalNode t) (Resource (Literal lx dt lang)) c =
     (Literal lx dt lang \<in> keys (object_to_type (data_type_map c))
      \<and> Some t = dd_get (object_to_type (data_type_map c)) (Literal lx dt lang))"
| "isSameType resourceA resourceB c = False"

definition isEquivalent :: "assertion \<Rightarrow> assertion \<Rightarrow> cache \<Rightarrow> bool" where
  "isEquivalent assertionA assertionB c =
     (if (\<not> (isinstance_ObjectTypeVariable (lhs assertionA)
              \<and> isinstance_ObjectTypeVariable (lhs assertionB)
              \<and> var_type (lhs assertionA) = var_type (lhs assertionB)))
         \<or> predicate assertionA \<noteq> predicate assertionB
      then False
      else (rhs assertionA = rhs assertionB
            \<or> (isinstance_TypeVariable (rhs assertionA)
                \<and> isinstance_TypeVariable (rhs assertionB)
                \<and> var_type (rhs assertionA) = var_type (rhs assertionB))
            \<or> isSameType (rhs assertionA) (rhs assertionB) c
            \<or> isSameType (rhs assertionB) (rhs assertionA) c))"

section \<open>The value normalizer\<close>

text \<open>
  \<^verbatim>\<open>cast_xsd\<close> is applied to whatever Python value it is handed: an rdflib term, a
  \<^verbatim>\<open>str\<close>, or another object (a float, an int, a date, a datetime), which stays
  opaque here.
\<close>

datatype 'o pyval = PTerm resource | PStr string | PObj 'o

text \<open>
  What \<^verbatim>\<open>cast_xsd\<close> takes from outside \<^verbatim>\<open>utils.py\<close> is a parameter: the four datatype
  families of \<^verbatim>\<open>mkgfd.multimodal\<close>, \<^verbatim>\<open>gFrag_to_days\<close> of \<^verbatim>\<open>mkgfd.timeutils\<close>, the value
  rdflib computes for a literal, and the functions of Python that convert. A function
  that can raise returns a sum.
\<close>

record 'o pyenv =
  XSD_NUMERIC :: "resource set"
  XSD_DATETIME :: "resource set"
  XSD_DATEFRAG :: "resource set"
  XSD_STRING :: "resource set"
  literal_value :: "resource \<Rightarrow> (string + 'o) option"
  py_float :: "'o pyval \<Rightarrow> exn + 'o"
  isinstance_date :: "'o \<Rightarrow> bool"
  combine_isoformat :: "'o \<Rightarrow> string"
  fromisoformat :: "'o pyval \<Rightarrow> exn + 'o"
  gFrag_to_days :: "string \<Rightarrow> resource \<Rightarrow> exn + 'o"
  obj_str :: "'o \<Rightarrow> string"

fun term_toPython :: "'o pyenv \<Rightarrow> resource \<Rightarrow> 'o pyval" where
  \<comment> \<open>rdflib: \<^verbatim>\<open>URIRef.toPython\<close> and \<^verbatim>\<open>BNode.toPython\<close> return \<^verbatim>\<open>str(self)\<close>;
      \<^verbatim>\<open>Literal.toPython\<close> returns the value of the literal, or the literal itself when
      it has none (unknown datatype, ill-typed lexical form).\<close>
  "term_toPython env (URIRef u) = PStr u"
| "term_toPython env (BNode b) = PStr b"
| "term_toPython env (Literal lx dt lang) =
     (case literal_value env (Literal lx dt lang) of
        None \<Rightarrow> PTerm (Literal lx dt lang)
      | Some (Inl s) \<Rightarrow> PStr s
      | Some (Inr ob) \<Rightarrow> PObj ob)"

fun toPython :: "'o pyenv \<Rightarrow> 'o pyval \<Rightarrow> exn + 'o pyval" where
  \<comment> \<open>\<^verbatim>\<open>node.toPython()\<close>: only an rdflib term has the method.\<close>
  "toPython env (PTerm t) = Inr (term_toPython env t)"
| "toPython env (PStr s) = Inl AttributeError"
| "toPython env (PObj ob) = Inl AttributeError"

fun term_str :: "resource \<Rightarrow> string" where
  "term_str (URIRef u) = u"
| "term_str (BNode b) = b"
| "term_str (Literal lx dt lang) = lx"

fun py_str :: "'o pyenv \<Rightarrow> 'o pyval \<Rightarrow> string" where
  \<comment> \<open>\<^verbatim>\<open>str(node)\<close>.\<close>
  "py_str env (PTerm t) = term_str t"
| "py_str env (PStr s) = s"
| "py_str env (PObj ob) = obj_str env ob"

text \<open>Strings are ASCII: \<^verbatim>\<open>strip\<close> and \<^verbatim>\<open>lower\<close> leave other characters alone.\<close>

definition isspace :: "char \<Rightarrow> bool" where
  "isspace ch =
     (ch \<in> set [CHR 0x09, CHR 0x0A, CHR 0x0B, CHR 0x0C, CHR 0x0D,
                CHR 0x1C, CHR 0x1D, CHR 0x1E, CHR 0x1F, CHR '' ''])"

definition str_strip :: "string \<Rightarrow> string" where
  "str_strip s = rev (dropWhile isspace (rev (dropWhile isspace s)))"

definition lower_char :: "char \<Rightarrow> char" where
  "lower_char ch =
     (case map_of (zip ''ABCDEFGHIJKLMNOPQRSTUVWXYZ'' ''abcdefghijklmnopqrstuvwxyz'') ch of
        Some l \<Rightarrow> l
      | None \<Rightarrow> ch)"

definition str_lower :: "string \<Rightarrow> string" where
  "str_lower s = map lower_char s"

definition except_ValueError :: "exn + 'a \<Rightarrow> ('a \<Rightarrow> 'b) \<Rightarrow> 'b \<Rightarrow> exn + 'b" where
  \<comment> \<open>\<^verbatim>\<open>try: node = f(...)\<close> \<^verbatim>\<open>except ValueError: pass\<close>: the result replaces the
      value, a ValueError leaves the value \<open>node\<close>, any other exception propagates.\<close>
  "except_ValueError r wrap node =
     (case r of
        Inr v \<Rightarrow> Inr (wrap v)
      | Inl e \<Rightarrow> if e = ValueError then Inr node else Inl e)"

definition cast_xsd :: "'o pyenv \<Rightarrow> 'o pyval \<Rightarrow> resource \<Rightarrow> exn + 'o pyval" where
  "cast_xsd env node dtype =
     (case toPython env node of
        Inl e \<Rightarrow> Inl e
      | Inr node \<Rightarrow>
          if dtype \<in> XSD_NUMERIC env then
            except_ValueError (py_float env node) PObj node
          else if dtype \<in> XSD_DATETIME env then
            (let node = (case node of
                           PObj ob \<Rightarrow>
                             if isinstance_date env ob then PStr (combine_isoformat env ob)
                             else node
                         | _ \<Rightarrow> node)
             in except_ValueError (fromisoformat env node) PObj node)
          else if dtype \<in> XSD_DATEFRAG env then
            except_ValueError (gFrag_to_days env (py_str env node) dtype) PObj node
          else if dtype \<in> XSD_STRING env then
            Inr (PStr (str_lower (str_strip (py_str env node))))
          else Inr node)"

section \<open>Example inputs\<close>

definition two_literals_graph :: graph where
  \<comment> \<open>Two distinct literals with the same explicit datatype.\<close>
  "two_literals_graph =
     [(URIRef ''s'', URIRef ''p'', Literal ''a'' (Some XSD_string) None),
      (URIRef ''s'', URIRef ''p'', Literal ''b'' (Some XSD_string) None)]"

definition example_graph :: graph where
  \<comment> \<open>The triples \<^verbatim>\<open>{(a,p,b),(a,p,c),(d,p,b)}\<close>.\<close>
  "example_graph =
     [(URIRef ''a'', URIRef ''p'', URIRef ''b''),
      (URIRef ''a'', URIRef ''p'', URIRef ''c''),
      (URIRef ''d'', URIRef ''p'', URIRef ''b'')]"

definition typed_graph :: graph where
  \<comment> \<open>Entity \<open>e1\<close> typed as both \<open>Student\<close> and \<open>Person\<close>, entity \<open>e2\<close> untyped.\<close>
  "typed_graph =
     [(URIRef ''e1'', RDF_type, URIRef ''Student''),
      (URIRef ''e1'', RDF_type, URIRef ''Person''),
      (URIRef ''e2'', URIRef ''knows'', URIRef ''e1'')]"

definition blank_node_graph :: graph where
  \<comment> \<open>A blank node typed as \<open>Person\<close>.\<close>
  "blank_node_graph = [(BNode ''b1'', RDF_type, URIRef ''Person'')]"

definition p_assertion :: assertion where
  \<comment> \<open>An assertion with predicate \<open>p\<close>.\<close>
  "p_assertion =
     \<lparr>lhs = TypeVariable ObjectTypeVariable (URIRef ''Person''),
      predicate = URIRef ''p'',
      rhs = Resource (URIRef ''b'')\<rparr>"

definition q_assertion :: assertion where
  \<comment> \<open>An assertion with predicate \<open>q\<close>, which occurs in no triple of \<open>example_graph\<close>.\<close>
  "q_assertion =
     \<lparr>lhs = TypeVariable ObjectTypeVariable (URIRef ''Person''),
      predicate = URIRef ''q'',
      rhs = Resource (URIRef ''b'')\<rparr>"

definition XSD_integer :: resource where
  "XSD_integer = URIRef ''http://www.w3.org/2001/XMLSchema#integer''"

definition XSD_dateTime :: resource where
  "XSD_dateTime = URIRef ''http://www.w3.org/2001/XMLSchema#dateTime''"

definition XSD_gMonthDay :: resource where
  "XSD_gMonthDay = URIRef ''http://www.w3.org/2001/XMLSchema#gMonthDay''"

datatype pyobj = PyInt int | PyFloat int

definition example_env :: "pyobj pyenv" where
  \<comment> \<open>The environment of the examples, with one datatype in each family. It tabulates
      Python's answers on the values of the examples: a literal that is plain or of
      datatype \<^verbatim>\<open>xsd:string\<close> has its lexical form as value; \<^verbatim>\<open>"5"^^xsd:integer\<close> has the
      value \<^verbatim>\<open>5\<close>; \<^verbatim>\<open>"abc"^^xsd:integer\<close> has no value; \<^verbatim>\<open>float(5)\<close> is \<^verbatim>\<open>5.0\<close>;
      \<^verbatim>\<open>float\<close> of the literal \<^verbatim>\<open>"abc"\<close> raises ValueError;
      \<^verbatim>\<open>datetime.fromisoformat\<close> of an int raises TypeError (the argument must be a
      \<^verbatim>\<open>str\<close>), and of the literal \<^verbatim>\<open>"abc"\<close> ValueError; an int is not a \<^verbatim>\<open>date\<close>.\<close>
  "example_env =
     \<lparr>XSD_NUMERIC = {XSD_integer},
      XSD_DATETIME = {XSD_dateTime},
      XSD_DATEFRAG = {XSD_gMonthDay},
      XSD_STRING = {XSD_string},
      literal_value = (\<lambda>t.
        if datatype_of t = None \<or> datatype_of t = Some XSD_string then Some (Inl (lexical t))
        else if t = Literal ''5'' (Some XSD_integer) None then Some (Inr (PyInt 5))
        else None),
      py_float = (\<lambda>v. if v = PObj (PyInt 5) then Inr (PyFloat 5) else Inl ValueError),
      isinstance_date = (\<lambda>ob. False),
      combine_isoformat = (\<lambda>ob. []),
      fromisoformat = (\<lambda>v. case v of PObj ob \<Rightarrow> Inl TypeError | _ \<Rightarrow> Inl ValueError),
      gFrag_to_days = (\<lambda>s d. Inl ValueError),
      obj_str = (\<lambda>ob. if ob = PyInt 5 \<or> ob = PyFloat 5 then ''5'' else [])\<rparr>"

definition alice :: resource where
  "alice = Literal ''Alice'' (Some XSD_string) None"

definition ALICE :: resource where
  "ALICE = Literal ''ALICE'' (Some XSD_string) None"

definition names_graph :: graph where
  "names_graph =
     [(URIRef ''e1'', RDF_type, URIRef ''Person''),
      (URIRef ''e1'', URIRef ''hasName'', alice),
      (URIRef ''e2'', RDF_type, URIRef ''Person''),
      (URIRef ''e2'', URIRef ''hasName'', ALICE)]"

definition names_cache :: cache where
  "names_cache =
     \<lparr>object_type_map = generate_object_type_map names_graph,
      data_type_map = generate_data_type_map names_graph\<rparr>"

definition hasName_assertion :: "resource \<Rightarrow> assertion" where
  \<comment> \<open>\<^verbatim>\<open>(?x:Person, hasName, name)\<close>.\<close>
  "hasName_assertion name =
     \<lparr>lhs = TypeVariable ObjectTypeVariable (URIRef ''Person''),
      predicate = URIRef ''hasName'',
      rhs = Resource name\<rparr>"

definition string_var_assertion :: assertion where
  \<comment> \<open>\<^verbatim>\<open>(?x:Person, hasName, ?v:xsd:string)\<close>.\<close>
  "string_var_assertion =
     \<lparr>lhs = TypeVariable ObjectTypeVariable (URIRef ''Person''),
      predicate = URIRef ''hasName'',
      rhs = TypeVariable DataTypeVariable XSD_string\<rparr>"

section \<open>Properties of DictDefault\<close>

lemma getitem_missing: "items d k = None \<Longrightarrow> getitem d k = (default_val d, d)"
  by (simp add: getitem_def missing_def)

lemma getitem_stored: "items d k = Some v \<Longrightarrow> getitem d k = (v, d)"
  by (simp add: getitem_def)

lemma getitem_frame: "snd (getitem d k) = d"
  by (simp add: getitem_def missing_def split: option.split)

text \<open>
  Claim C8. A lookup of a key that was never stored returns the configured default and
  hands the dictionary back unchanged, so the key is not inserted and membership
  (\<^verbatim>\<open>in\<close>, \<^verbatim>\<open>keys()\<close>) still answers for the stored keys only: no key is contained in a
  fresh DictDefault, after \<^verbatim>\<open>d[k'] = v\<close> exactly \<open>k'\<close> is added, and a lookup adds
  none. A lookup of a stored key returns the stored value.
\<close>

theorem DictDefault_lookup_does_not_store:
  "(k \<notin> keys d \<longrightarrow>
      getitem d k = (default_val d, d) \<and> k \<notin> keys (snd (getitem d k))
      \<and> \<not> contains (snd (getitem d k)) k)
   \<and> (items d k = Some v \<longrightarrow> getitem d k = (v, d))
   \<and> getitem (setitem d k v) k = (v, setitem d k v)
   \<and> contains (snd (getitem d k)) k' = contains d k'
   \<and> \<not> contains (DictDefault_init dv :: ('k, 'v) DictDefault) k'
   \<and> contains (setitem d k v) k' = (k' = k \<or> contains d k')
   \<and> default_val (snd (getitem d k)) = default_val d"
  by (auto simp: getitem_def missing_def keys_def contains_def setitem_def
      DictDefault_init_def split: option.split)

theorem DictDefault_lookup_does_not_store_witness:
  "(3::nat) \<notin> keys (setitem (DictDefault_init ''dflt'') (1::nat) ''one'')
   \<and> getitem (setitem (DictDefault_init ''dflt'') (1::nat) ''one'') 3
       = (''dflt'', setitem (DictDefault_init ''dflt'') 1 ''one'')
   \<and> \<not> contains (snd (getitem (setitem (DictDefault_init ''dflt'') (1::nat) ''one'') 3)) 3
   \<and> getitem (setitem (DictDefault_init ''dflt'') (1::nat) ''one'') 1
       = (''one'', setitem (DictDefault_init ''dflt'') 1 ''one'')"
proof -
  let ?d = "setitem (DictDefault_init ''dflt'') (1::nat) ''one''"
  have absent: "(3::nat) \<notin> keys ?d"
    by (simp add: keys_def setitem_def DictDefault_init_def)
  have stored: "items ?d 1 = Some ''one''"
    by (simp add: setitem_def DictDefault_init_def)
  from DictDefault_lookup_does_not_store [of "3::nat" ?d "''one''" "3::nat" "''dflt''"] absent
  have a: "getitem ?d 3 = (default_val ?d, ?d) \<and> \<not> contains (snd (getitem ?d 3)) 3"
    by blast
  from DictDefault_lookup_does_not_store [of "1::nat" ?d "''one''" "3::nat" "''dflt''"] stored
  have b: "getitem ?d 1 = (''one'', ?d)"
    by blast
  have dv: "default_val ?d = ''dflt''"
    by (simp add: setitem_def DictDefault_init_def)
  from absent a b dv show ?thesis by (simp add: keys_def contains_def)
qed

text \<open>
  Claim C10. The default is returned by reference: the lookups of two keys that are not
  stored return the same reference, and after an element is added to the set object
  reached through the first lookup, the object reached through the lookup of the second
  missing key holds that element.
\<close>

theorem DictDefault_default_is_shared:
  "k1 \<notin> keys d \<Longrightarrow> k2 \<notin> keys d \<Longrightarrow> h (default_val d) = Some s \<Longrightarrow>
   fst (getitem d k1) = fst (getitem d k2)
   \<and> (let (r1, d1) = getitem d k1;
           h' = set_add h r1 x;
           (r2, d2) = getitem d1 k2
       in r2 = r1 \<and> h' r2 = Some (insert x s) \<and> x \<in> the (h' r2))"
  by (simp add: getitem_def missing_def keys_def set_add_def domIff)

theorem DictDefault_default_is_shared_witness:
  "(let d = DictDefault_init (0::ref) :: (string, ref) DictDefault;
        h = [0 \<mapsto> {}] :: nat heap;
        (r1, d1) = getitem d ''a'';
        h' = set_add h r1 (7::nat);
        (r2, d2) = getitem d1 ''b''
    in ''a'' \<notin> keys d \<and> ''b'' \<notin> keys d \<and> r2 = r1 \<and> h' r2 = Some {7})"
  using DictDefault_default_is_shared
    [of "''a''" "DictDefault_init (0::ref) :: (string, ref) DictDefault" "''b''"
        "[0 \<mapsto> {}] :: nat heap" "{}" "7::nat"]
  by (simp add: getitem_def missing_def keys_def set_add_def DictDefault_init_def)

section \<open>Properties of the index builders\<close>

lemma dd_get_items: "dd_get d k = (case items d k of Some v \<Rightarrow> v | None \<Rightarrow> default_val d)"
  by (simp add: dd_get_def getitem_def missing_def split: option.split)

subsection \<open>The literal-datatype index\<close>

lemma data_type_step_literal:
  "isinstance_Literal ob \<Longrightarrow>
   data_type_step m ob =
     \<lparr>object_to_type = setitem (object_to_type m) ob (Some (literal_dtype ob)),
      type_to_object =
        (type_to_object m)\<lparr>items := (items (type_to_object m))(literal_dtype ob \<mapsto> {ob})\<rparr>\<rparr>"
  by (simp add: data_type_step_def in_type_map_keys_def type_map_keys_def term_eq_str_def
      setitem_def dd_add_def Let_def)

lemma data_type_step_other: "\<not> isinstance_Literal ob \<Longrightarrow> data_type_step m ob = m"
  by (simp add: data_type_step_def)

lemma data_type_loop_append:
  "data_type_loop m (xs @ ys) = data_type_loop (data_type_loop m xs) ys"
  by (induction xs arbitrary: m) simp_all

text \<open>The direction from literals to datatypes is right for every observed literal.\<close>

lemma object_to_type_step:
  "dd_get (object_to_type (data_type_step m ob)) L =
     (if isinstance_Literal ob \<and> L = ob then Some (literal_dtype ob)
      else dd_get (object_to_type m) L)"
  by (cases "isinstance_Literal ob")
     (simp_all add: data_type_step_literal data_type_step_other dd_get_items setitem_def
        split: option.split)

lemma object_to_type_loop:
  "dd_get (object_to_type (data_type_loop m obs)) L =
     (if isinstance_Literal L \<and> L \<in> set obs then Some (literal_dtype L)
      else dd_get (object_to_type m) L)"
  by (induction obs arbitrary: m) (auto simp: object_to_type_step)

lemma object_to_type_observed:
  "isinstance_Literal L \<Longrightarrow> L \<in> set (objects g) \<Longrightarrow>
   dd_get (object_to_type (generate_data_type_map g)) L = Some (literal_dtype L)"
  by (simp add: generate_data_type_map_def object_to_type_loop)

text \<open>
  The direction from datatypes to literals is not: the test before the bucket is created
  looks at the keys of the outer dictionary, so the bucket is replaced by an empty set
  for every literal, and it only ever holds the literal observed last.
\<close>

lemma bucket_last_literal:
  "isinstance_Literal L \<Longrightarrow>
   dd_get (type_to_object (data_type_loop m (obs @ [L]))) (literal_dtype L) = {L}"
  by (simp add: data_type_loop_append data_type_step_literal dd_get_items)

lemma single_buckets_step:
  assumes "default_val (type_to_object m) = {}"
    and "\<And>k S. items (type_to_object m) k = Some S \<Longrightarrow> \<exists>x. S = {x}"
  shows "default_val (type_to_object (data_type_step m ob)) = {}
    \<and> (\<forall>k S. items (type_to_object (data_type_step m ob)) k = Some S \<longrightarrow> (\<exists>x. S = {x}))"
  using assms
  by (cases "isinstance_Literal ob") (auto simp: data_type_step_literal data_type_step_other)

lemma single_buckets_loop:
  "default_val (type_to_object m) = {} \<Longrightarrow>
   (\<And>k S. items (type_to_object m) k = Some S \<Longrightarrow> \<exists>x. S = {x}) \<Longrightarrow>
   default_val (type_to_object (data_type_loop m obs)) = {}
    \<and> (\<forall>k S. items (type_to_object (data_type_loop m obs)) k = Some S \<longrightarrow> (\<exists>x. S = {x}))"
proof (induction obs arbitrary: m)
  case Nil
  then show ?case by simp
next
  case (Cons ob obs)
  from single_buckets_step [of m ob] Cons.prems
  have "default_val (type_to_object (data_type_step m ob)) = {}"
    and "\<And>k S. items (type_to_object (data_type_step m ob)) k = Some S \<Longrightarrow> \<exists>x. S = {x}"
    by blast+
  from Cons.IH [OF this] show ?case by simp
qed

lemma bucket_card_le_1:
  "card (dd_get (type_to_object (generate_data_type_map g)) D) \<le> 1"
proof -
  let ?t2o = "type_to_object (generate_data_type_map g)"
  have "default_val ?t2o = {} \<and> (\<forall>k S. items ?t2o k = Some S \<longrightarrow> (\<exists>x. S = {x}))"
    unfolding generate_data_type_map_def
    by (rule single_buckets_loop) (simp_all add: DictDefault_init_def)
  then have dv: "default_val ?t2o = {}"
    and sb: "\<And>S. items ?t2o D = Some S \<Longrightarrow> \<exists>x. S = {x}"
    by blast+
  show ?thesis
  proof (cases "items ?t2o D")
    case None
    with dv show ?thesis by (simp add: dd_get_items)
  next
    case (Some S)
    with sb obtain x where "S = {x}" by blast
    with Some show ?thesis by (simp add: dd_get_items)
  qed
qed

text \<open>
  Claim C1, on the graph with the two literals \<open>a\<close> and \<open>b\<close> of datatype
  \<^verbatim>\<open>xsd:string\<close>: both literals are mapped to their datatype, but the bucket of the
  datatype holds \<open>b\<close> only; \<open>a\<close>, observed first, is in no bucket.
\<close>

theorem data_type_bucket_loses_literal:
  "dd_get (object_to_type (generate_data_type_map two_literals_graph))
      (Literal ''a'' (Some XSD_string) None) = Some XSD_string
   \<and> dd_get (object_to_type (generate_data_type_map two_literals_graph))
      (Literal ''b'' (Some XSD_string) None) = Some XSD_string
   \<and> dd_get (type_to_object (generate_data_type_map two_literals_graph)) XSD_string
      = {Literal ''b'' (Some XSD_string) None}
   \<and> Literal ''a'' (Some XSD_string) None
      \<notin> dd_get (type_to_object (generate_data_type_map two_literals_graph)) XSD_string
   \<and> keys (type_to_object (generate_data_type_map two_literals_graph)) = {XSD_string}"
  by (simp add: two_literals_graph_def generate_data_type_map_def objects_def
      data_type_step_literal literal_dtype_def dd_get_items setitem_def DictDefault_init_def
      keys_def)

subsection \<open>The predicate index\<close>

lemma predicate_step_new:
  "\<exists>en F B. predicate_step pm (s, p, ob) p = Some en
     \<and> items (forwards en) s = Some F \<and> ob \<in> F
     \<and> items (backwards en) ob = Some B \<and> s \<in> B"
  by (auto simp: predicate_step_def Let_def keys_def setitem_def dd_add_def DictDefault_init_def
      split: option.split)

lemma predicate_step_keeps:
  assumes "pm p = Some en" "items (forwards en) s = Some F" "ob \<in> F"
    "items (backwards en) ob = Some B" "s \<in> B"
  shows "\<exists>en' F' B'. predicate_step pm t p = Some en'
     \<and> items (forwards en') s = Some F' \<and> ob \<in> F'
     \<and> items (backwards en') ob = Some B' \<and> s \<in> B'"
proof -
  obtain s' p' o' where t: "t = (s', p', o')" by (cases t) auto
  show ?thesis
  proof (cases "p' = p")
    case False
    with assms t show ?thesis by (simp add: predicate_step_def Let_def)
  next
    case True
    with assms t show ?thesis
      by (auto simp: predicate_step_def Let_def keys_def setitem_def dd_add_def
          split: option.split)
  qed
qed

lemma predicate_loop_keeps:
  "pm p = Some en \<Longrightarrow> items (forwards en) s = Some F \<Longrightarrow> ob \<in> F \<Longrightarrow>
   items (backwards en) ob = Some B \<Longrightarrow> s \<in> B \<Longrightarrow>
   \<exists>en' F' B'. predicate_loop pm ts p = Some en'
     \<and> items (forwards en') s = Some F' \<and> ob \<in> F'
     \<and> items (backwards en') ob = Some B' \<and> s \<in> B'"
proof (induction ts arbitrary: pm en F B)
  case Nil
  then show ?case by simp
next
  case (Cons t ts)
  from predicate_step_keeps [of pm p en s F ob B t] Cons.prems
  obtain en' F' B' where "predicate_step pm t p = Some en'"
    "items (forwards en') s = Some F'" "ob \<in> F'"
    "items (backwards en') ob = Some B'" "s \<in> B'" by blast
  from Cons.IH [of "predicate_step pm t" en' F' B'] this show ?case by simp
qed

lemma predicate_loop_member:
  "(s, p, ob) \<in> set ts \<Longrightarrow>
   \<exists>en F B. predicate_loop pm ts p = Some en
     \<and> items (forwards en) s = Some F \<and> ob \<in> F
     \<and> items (backwards en) ob = Some B \<and> s \<in> B"
proof (induction ts arbitrary: pm)
  case Nil
  then show ?case by simp
next
  case (Cons t ts)
  show ?case
  proof (cases "t = (s, p, ob)")
    case True
    from predicate_step_new [of pm s p ob]
    obtain en F B where "predicate_step pm (s, p, ob) p = Some en"
      "items (forwards en) s = Some F" "ob \<in> F"
      "items (backwards en) ob = Some B" "s \<in> B" by blast
    from predicate_loop_keeps [of "predicate_step pm (s, p, ob)" p en s F ob B ts] this True
    show ?thesis by simp
  next
    case False
    with Cons.prems have "(s, p, ob) \<in> set ts" by simp
    from Cons.IH [OF this] show ?thesis by simp
  qed
qed

text \<open>
  The defaults of the two maps of an entry stay empty, since a set is stored under its
  key before anything is added to it; so the sets of both maps are exactly the objects
  and the subjects of the triples of the predicate.
\<close>

lemma predicate_step_defaults:
  assumes "\<And>q en. pm q = Some en \<Longrightarrow>
      default_val (forwards en) = {} \<and> default_val (backwards en) = {}"
    and "predicate_step pm t q = Some en"
  shows "default_val (forwards en) = {} \<and> default_val (backwards en) = {}"
proof -
  obtain s' p' o' where t: "t = (s', p', o')" by (cases t) auto
  show ?thesis
  proof (cases "q = p'")
    case False
    with assms t show ?thesis by (simp add: predicate_step_def Let_def)
  next
    case True
    show ?thesis
    proof (cases "pm p'")
      case None
      with assms(2) t True show ?thesis
        by (auto simp: predicate_step_def Let_def keys_def setitem_def dd_add_def
            DictDefault_init_def split: if_splits option.splits)
    next
      case (Some e0)
      from assms(1) [OF Some] have "default_val (forwards e0) = {}" "default_val (backwards e0) = {}"
        by simp_all
      with assms(2) t True Some show ?thesis
        by (auto simp: predicate_step_def Let_def keys_def setitem_def dd_add_def
            split: if_splits option.splits)
    qed
  qed
qed

lemma predicate_step_forwards:
  assumes "\<And>q en. pm q = Some en \<Longrightarrow>
      default_val (forwards en) = {} \<and> default_val (backwards en) = {}"
  shows "(case predicate_step pm (s', p', o') p of None \<Rightarrow> {} | Some en \<Rightarrow> dd_get (forwards en) s) =
     (case pm p of None \<Rightarrow> {} | Some en \<Rightarrow> dd_get (forwards en) s)
       \<union> (if p = p' \<and> s = s' then {o'} else {})"
proof (cases "p = p'")
  case False
  then show ?thesis by (simp add: predicate_step_def Let_def)
next
  case True
  show ?thesis
  proof (cases "pm p'")
    case None
    with True show ?thesis
      by (simp add: predicate_step_def Let_def keys_def setitem_def dd_add_def
          DictDefault_init_def dd_get_items)
  next
    case (Some e0)
    from assms [OF Some] have "default_val (forwards e0) = {}" by simp
    with True Some show ?thesis
      by (auto simp: predicate_step_def Let_def keys_def setitem_def dd_add_def
          dd_get_items domIff split: option.splits)
  qed
qed

lemma predicate_step_backwards:
  assumes "\<And>q en. pm q = Some en \<Longrightarrow>
      default_val (forwards en) = {} \<and> default_val (backwards en) = {}"
  shows "(case predicate_step pm (s', p', o') p of None \<Rightarrow> {} | Some en \<Rightarrow> dd_get (backwards en) ob) =
     (case pm p of None \<Rightarrow> {} | Some en \<Rightarrow> dd_get (backwards en) ob)
       \<union> (if p = p' \<and> ob = o' then {s'} else {})"
proof (cases "p = p'")
  case False
  then show ?thesis by (simp add: predicate_step_def Let_def)
next
  case True
  show ?thesis
  proof (cases "pm p'")
    case None
    with True show ?thesis
      by (simp add: predicate_step_def Let_def keys_def setitem_def dd_add_def
          DictDefault_init_def dd_get_items)
  next
    case (Some e0)
    from assms [OF Some] have "default_val (backwards e0) = {}" by simp
    with True Some show ?thesis
      by (auto simp: predicate_step_def Let_def keys_def setitem_def dd_add_def
          dd_get_items domIff split: option.splits)
  qed
qed

lemma predicate_loop_contents:
  assumes "\<And>q en. pm q = Some en \<Longrightarrow>
      default_val (forwards en) = {} \<and> default_val (backwards en) = {}"
  shows "(case predicate_loop pm ts p of None \<Rightarrow> {} | Some en \<Rightarrow> dd_get (forwards en) s) =
       (case pm p of None \<Rightarrow> {} | Some en \<Rightarrow> dd_get (forwards en) s)
         \<union> {ob. (s, p, ob) \<in> set ts}
     \<and> (case predicate_loop pm ts p of None \<Rightarrow> {} | Some en \<Rightarrow> dd_get (backwards en) ob) =
       (case pm p of None \<Rightarrow> {} | Some en \<Rightarrow> dd_get (backwards en) ob)
         \<union> {s. (s, p, ob) \<in> set ts}"
  using assms
proof (induction ts arbitrary: pm)
  case Nil
  then show ?case by simp
next
  case (Cons t ts)
  obtain s' p' o' where t: "t = (s', p', o')" by (cases t) auto
  have inv: "\<And>q en. predicate_step pm t q = Some en \<Longrightarrow>
      default_val (forwards en) = {} \<and> default_val (backwards en) = {}"
    using predicate_step_defaults [of pm t] Cons.prems by blast
  from Cons.IH [of "predicate_step pm t"] inv
  have ih: "(case predicate_loop (predicate_step pm t) ts p of None \<Rightarrow> {} | Some en \<Rightarrow> dd_get (forwards en) s) =
       (case predicate_step pm t p of None \<Rightarrow> {} | Some en \<Rightarrow> dd_get (forwards en) s)
         \<union> {ob. (s, p, ob) \<in> set ts}
     \<and> (case predicate_loop (predicate_step pm t) ts p of None \<Rightarrow> {} | Some en \<Rightarrow> dd_get (backwards en) ob) =
       (case predicate_step pm t p of None \<Rightarrow> {} | Some en \<Rightarrow> dd_get (backwards en) ob)
         \<union> {s. (s, p, ob) \<in> set ts}"
    by blast
  have f: "(case predicate_step pm t p of None \<Rightarrow> {} | Some en \<Rightarrow> dd_get (forwards en) s) =
     (case pm p of None \<Rightarrow> {} | Some en \<Rightarrow> dd_get (forwards en) s)
       \<union> (if p = p' \<and> s = s' then {o'} else {})"
    unfolding t using Cons.prems by (rule predicate_step_forwards)
  have b: "(case predicate_step pm t p of None \<Rightarrow> {} | Some en \<Rightarrow> dd_get (backwards en) ob) =
     (case pm p of None \<Rightarrow> {} | Some en \<Rightarrow> dd_get (backwards en) ob)
       \<union> (if p = p' \<and> ob = o' then {s'} else {})"
    unfolding t using Cons.prems by (rule predicate_step_backwards)
  have s1: "{x. (s, p, x) \<in> set (t # ts)} = (if p = p' \<and> s = s' then {o'} else {}) \<union> {x. (s, p, x) \<in> set ts}"
    using t by auto
  have s2: "{x. (x, p, ob) \<in> set (t # ts)} = (if p = p' \<and> ob = o' then {s'} else {}) \<union> {x. (x, p, ob) \<in> set ts}"
    using t by auto
  from ih f b show ?case
    unfolding s1 s2 by (simp add: Un_assoc)
qed

lemma generated_predicate_contents:
  "generate_predicate_map g p = Some entry \<Longrightarrow>
   dd_get (forwards entry) s = {ob. (s, p, ob) \<in> set g}
   \<and> dd_get (backwards entry) ob = {s. (s, p, ob) \<in> set g}"
  using predicate_loop_contents [where pm = Map.empty and ts = g and p = p and s = s and ob = ob]
  by (simp add: generate_predicate_map_def)

text \<open>
  Claim C6. For every triple \<open>(s, p, o)\<close> of the graph the predicate index has an entry
  for \<open>p\<close>, in which \<open>o\<close> is in the set stored under \<open>s\<close> in the forward map and \<open>s\<close> is
  in the set stored under \<open>o\<close> in the backward map. The two maps agree: an object is in
  the forward set of a subject exactly when the subject is in the backward set of the
  object. The sets are accumulated by union: the forward set of a subject is the set of
  all objects of its triples with \<open>p\<close>, the backward set of an object the set of all
  subjects of its triples with \<open>p\<close>, whatever the order of the triples.
\<close>

theorem predicate_map_consistent:
  "(s, p, ob) \<in> set g \<Longrightarrow>
   \<exists>entry. generate_predicate_map g p = Some entry
     \<and> s \<in> keys (forwards entry) \<and> ob \<in> dd_get (forwards entry) s
     \<and> ob \<in> keys (backwards entry) \<and> s \<in> dd_get (backwards entry) ob
     \<and> (\<forall>s'. dd_get (forwards entry) s' = {o'. (s', p, o') \<in> set g})
     \<and> (\<forall>o'. dd_get (backwards entry) o' = {s'. (s', p, o') \<in> set g})
     \<and> (\<forall>s' o'. (o' \<in> dd_get (forwards entry) s') = (s' \<in> dd_get (backwards entry) o'))"
proof -
  assume "(s, p, ob) \<in> set g"
  from predicate_loop_member [OF this, of Map.empty]
  obtain en F B where en: "generate_predicate_map g p = Some en"
    and m: "items (forwards en) s = Some F" "ob \<in> F"
    "items (backwards en) ob = Some B" "s \<in> B"
    by (auto simp: generate_predicate_map_def)
  have fw: "dd_get (forwards en) s' = {o'. (s', p, o') \<in> set g}" for s'
    using generated_predicate_contents [OF en] by blast
  have bw: "dd_get (backwards en) o' = {s'. (s', p, o') \<in> set g}" for o'
    using generated_predicate_contents [OF en] by blast
  from m have "s \<in> keys (forwards en)" "ob \<in> dd_get (forwards en) s"
    "ob \<in> keys (backwards en)" "s \<in> dd_get (backwards en) ob"
    by (auto simp: dd_get_items keys_def)
  with en fw bw show ?thesis by simp
qed

theorem predicate_map_consistent_witness:
  "(URIRef ''a'', URIRef ''p'', URIRef ''b'') \<in> set example_graph
   \<and> (\<exists>entry. generate_predicate_map example_graph (URIRef ''p'') = Some entry
     \<and> dd_get (forwards entry) (URIRef ''a'') = {URIRef ''b'', URIRef ''c''}
     \<and> dd_get (backwards entry) (URIRef ''b'') = {URIRef ''a'', URIRef ''d''}
     \<and> dd_get (backwards entry) (URIRef ''c'') = {URIRef ''a''}
     \<and> dd_get (forwards entry) (URIRef ''x'') = {})"
proof -
  have mem: "(URIRef ''a'', URIRef ''p'', URIRef ''b'') \<in> set example_graph"
    by (simp add: example_graph_def)
  have c1: "{o'. (URIRef ''a'', URIRef ''p'', o') \<in> set example_graph}
      = {URIRef ''b'', URIRef ''c''}"
    and c2: "{s'. (s', URIRef ''p'', URIRef ''b'') \<in> set example_graph}
      = {URIRef ''a'', URIRef ''d''}"
    and c3: "{s'. (s', URIRef ''p'', URIRef ''c'') \<in> set example_graph} = {URIRef ''a''}"
    and c4: "{o'. (URIRef ''x'', URIRef ''p'', o') \<in> set example_graph} = {}"
    by (auto simp: example_graph_def)
  from predicate_map_consistent [OF mem] obtain entry where
    "generate_predicate_map example_graph (URIRef ''p'') = Some entry"
    "\<forall>s'. dd_get (forwards entry) s' = {o'. (s', URIRef ''p'', o') \<in> set example_graph}"
    "\<forall>o'. dd_get (backwards entry) o' = {s'. (s', URIRef ''p'', o') \<in> set example_graph}"
    by blast
  with mem c1 c2 c3 c4 show ?thesis by simp
qed

subsection \<open>The entity-type index\<close>

text \<open>
  Both maps start with the default \<open>{}\<close>, and no step of the builder changes a default:
  every set it adds to is stored under its key first.
\<close>

lemma object_type_step_defaults:
  "default_val (object_to_type m) = {} \<Longrightarrow> default_val (type_to_object m) = {} \<Longrightarrow>
   default_val (object_to_type (object_type_step m e c)) = {}
   \<and> default_val (type_to_object (object_type_step m e c)) = {}"
  by (simp add: object_type_step_def Let_def keys_def setitem_def dd_add_def domIff
      split: option.split)

lemma object_type_step_o2t:
  "default_val (object_to_type m) = {} \<Longrightarrow>
   dd_get (object_to_type (object_type_step m e c)) e' =
     (if e' = e then insert c (dd_get (object_to_type m) e) else dd_get (object_to_type m) e')"
  by (auto simp: object_type_step_def Let_def keys_def setitem_def dd_add_def dd_get_items domIff
      split: option.split)

lemma object_type_step_o2t_keys:
  "keys (object_to_type (object_type_step m e c)) = insert e (keys (object_to_type m))"
  by (auto simp: object_type_step_def Let_def keys_def setitem_def dd_add_def
      split: option.split)

lemma object_type_step_t2o:
  "default_val (type_to_object m) = {} \<Longrightarrow>
   dd_get (type_to_object (object_type_step m e c)) c' =
     (if c' = c then insert e (dd_get (type_to_object m) c) else dd_get (type_to_object m) c')"
  by (auto simp: object_type_step_def Let_def keys_def setitem_def dd_add_def dd_get_items domIff
      split: option.split)

lemma object_type_step_t2o_keys:
  "keys (type_to_object (object_type_step m e c)) = insert c (keys (type_to_object m))"
  by (auto simp: object_type_step_def Let_def keys_def setitem_def dd_add_def
      split: option.split)

lemma object_type_inner_defaults:
  "default_val (object_to_type m) = {} \<Longrightarrow> default_val (type_to_object m) = {} \<Longrightarrow>
   default_val (object_to_type (object_type_inner m e cs)) = {}
   \<and> default_val (type_to_object (object_type_inner m e cs)) = {}"
  by (induction cs arbitrary: m) (simp_all add: object_type_step_defaults)

lemma object_type_inner_o2t:
  "default_val (object_to_type m) = {} \<Longrightarrow> default_val (type_to_object m) = {} \<Longrightarrow>
   dd_get (object_to_type (object_type_inner m e cs)) e' =
     (if e' = e then dd_get (object_to_type m) e \<union> set cs else dd_get (object_to_type m) e')"
  by (induction cs arbitrary: m)
     (simp_all add: object_type_step_defaults object_type_step_o2t)

lemma object_type_inner_o2t_keys:
  "keys (object_to_type (object_type_inner m e cs)) =
     (if cs = [] then keys (object_to_type m) else insert e (keys (object_to_type m)))"
  by (induction cs arbitrary: m) (auto simp: object_type_step_o2t_keys)

lemma object_type_inner_t2o:
  "default_val (object_to_type m) = {} \<Longrightarrow> default_val (type_to_object m) = {} \<Longrightarrow>
   dd_get (type_to_object (object_type_inner m e cs)) c =
     (if c \<in> set cs then insert e (dd_get (type_to_object m) c) else dd_get (type_to_object m) c)"
  by (induction cs arbitrary: m)
     (auto simp: object_type_step_defaults object_type_step_t2o)

lemma object_type_inner_t2o_keys:
  "keys (type_to_object (object_type_inner m e cs)) = keys (type_to_object m) \<union> set cs"
  by (induction cs arbitrary: m) (auto simp: object_type_step_t2o_keys)

lemma objects_of_set: "set (objects_of g s p) = {ob. (s, p, ob) \<in> set g}"
  by (force simp: objects_of_def)

lemma subjects_set: "set (subjects g) = {s. \<exists>p ob. (s, p, ob) \<in> set g}"
  by (force simp: subjects_def)

lemma ctypes_of_nonempty: "ctypes_of g e \<noteq> []"
  by (simp add: ctypes_of_def Let_def)

lemma object_type_loop_defaults:
  "default_val (object_to_type m) = {} \<Longrightarrow> default_val (type_to_object m) = {} \<Longrightarrow>
   default_val (object_to_type (object_type_loop g m es)) = {}
   \<and> default_val (type_to_object (object_type_loop g m es)) = {}"
  by (induction es arbitrary: m) (simp_all add: object_type_inner_defaults)

lemma object_type_loop_o2t:
  "default_val (object_to_type m) = {} \<Longrightarrow> default_val (type_to_object m) = {} \<Longrightarrow>
   dd_get (object_to_type (object_type_loop g m es)) e =
     (if e \<in> set es \<and> isinstance_URIRef e
      then dd_get (object_to_type m) e \<union> set (ctypes_of g e)
      else dd_get (object_to_type m) e)"
proof (induction es arbitrary: m)
  case Nil
  then show ?case by simp
next
  case (Cons x es)
  let ?m = "if \<not> isinstance_URIRef x then m else object_type_inner m x (ctypes_of g x)"
  have d: "default_val (object_to_type ?m) = {}" "default_val (type_to_object ?m) = {}"
    using Cons.prems by (simp_all add: object_type_inner_defaults)
  have step: "dd_get (object_to_type ?m) e =
      (if e = x \<and> isinstance_URIRef x then dd_get (object_to_type m) e \<union> set (ctypes_of g e)
       else dd_get (object_to_type m) e)"
    using Cons.prems by (simp add: object_type_inner_o2t)
  from Cons.IH [OF d] step show ?case by auto
qed

lemma object_type_loop_o2t_keys:
  "keys (object_to_type (object_type_loop g m es)) =
     keys (object_to_type m) \<union> {e \<in> set es. isinstance_URIRef e}"
  by (induction es arbitrary: m) (auto simp: object_type_inner_o2t_keys ctypes_of_nonempty)

lemma object_type_loop_t2o:
  "default_val (object_to_type m) = {} \<Longrightarrow> default_val (type_to_object m) = {} \<Longrightarrow>
   dd_get (type_to_object (object_type_loop g m es)) c =
     dd_get (type_to_object m) c
       \<union> {e \<in> set es. isinstance_URIRef e \<and> c \<in> set (ctypes_of g e)}"
proof (induction es arbitrary: m)
  case Nil
  then show ?case by simp
next
  case (Cons x es)
  let ?m = "if \<not> isinstance_URIRef x then m else object_type_inner m x (ctypes_of g x)"
  have d: "default_val (object_to_type ?m) = {}" "default_val (type_to_object ?m) = {}"
    using Cons.prems by (simp_all add: object_type_inner_defaults)
  have step: "dd_get (type_to_object ?m) c =
      dd_get (type_to_object m) c
        \<union> {e. e = x \<and> isinstance_URIRef e \<and> c \<in> set (ctypes_of g e)}"
    using Cons.prems by (auto simp: object_type_inner_t2o)
  from Cons.IH [OF d] step show ?case by auto
qed

lemma object_type_loop_t2o_keys:
  "keys (type_to_object (object_type_loop g m es)) =
     keys (type_to_object m)
       \<union> {c. \<exists>e \<in> set es. isinstance_URIRef e \<and> c \<in> set (ctypes_of g e)}"
  by (induction es arbitrary: m) (auto simp: object_type_inner_t2o_keys)

text \<open>Subjects that are not of class \<^verbatim>\<open>URIRef\<close>, blank nodes and literals, are skipped.\<close>

lemma object_type_map_keys:
  "keys (object_to_type (generate_object_type_map g)) =
     {e \<in> set (subjects g). isinstance_URIRef e}"
proof -
  have "keys (DictDefault_init {} :: (resource, resource set) DictDefault) = {}"
    by (simp add: keys_def DictDefault_init_def)
  then show ?thesis
    by (simp add: generate_object_type_map_def object_type_loop_o2t_keys)
qed

text \<open>
  Claim C7, as stated, fails for a subject that is an entity but not a \<^verbatim>\<open>URIRef\<close>: the
  builder skips every subject that is not an instance of \<^verbatim>\<open>URIRef\<close>. A blank node
  typed as \<open>Person\<close> is a subject and not a literal, yet it is not stored, its lookup
  gives the empty default, and it is not in the bucket of \<open>Person\<close>.
\<close>

theorem object_type_map_skips_blank_node:
  "BNode ''b1'' \<in> set (subjects blank_node_graph)
   \<and> \<not> isinstance_Literal (BNode ''b1'')
   \<and> set (objects_of blank_node_graph (BNode ''b1'') RDF_type) = {URIRef ''Person''}
   \<and> BNode ''b1'' \<notin> keys (object_to_type (generate_object_type_map blank_node_graph))
   \<and> dd_get (object_to_type (generate_object_type_map blank_node_graph)) (BNode ''b1'') = {}
   \<and> BNode ''b1''
       \<notin> dd_get (type_to_object (generate_object_type_map blank_node_graph)) (URIRef ''Person'')"
  by (simp add: blank_node_graph_def subjects_def objects_of_def generate_object_type_map_def
      DictDefault_init_def keys_def dd_get_items)

text \<open>
  Claim C7, amended. Every subject of the graph that is a \<^verbatim>\<open>URIRef\<close> is stored in the
  entity-type index with a set of classes that is not empty: the single generic class
  \<^verbatim>\<open>rdfs:Class\<close> when the graph asserts no type for it, and exactly the objects of its
  \<^verbatim>\<open>rdf:type\<close> triples otherwise. Each of these classes has a bucket, and the entity is
  in it; the bucket of a class holds exactly the \<^verbatim>\<open>URIRef\<close> subjects that have the
  class. A resource that is not a \<^verbatim>\<open>URIRef\<close> subject is not stored and has no class.
\<close>

theorem object_type_map_classes:
  assumes "URIRef u \<in> set (subjects g)"
  shows "URIRef u \<in> keys (object_to_type (generate_object_type_map g))
    \<and> dd_get (object_to_type (generate_object_type_map g)) (URIRef u) =
        (if set (objects_of g (URIRef u) RDF_type) = {} then {RDFS_Class}
         else set (objects_of g (URIRef u) RDF_type))
    \<and> dd_get (object_to_type (generate_object_type_map g)) (URIRef u) \<noteq> {}
    \<and> (\<forall>c \<in> dd_get (object_to_type (generate_object_type_map g)) (URIRef u).
          c \<in> keys (type_to_object (generate_object_type_map g))
          \<and> URIRef u \<in> dd_get (type_to_object (generate_object_type_map g)) c)
    \<and> (\<forall>c. dd_get (type_to_object (generate_object_type_map g)) c =
          {e \<in> set (subjects g). isinstance_URIRef e
             \<and> c \<in> dd_get (object_to_type (generate_object_type_map g)) e})
    \<and> (\<forall>e. \<not> (e \<in> set (subjects g) \<and> isinstance_URIRef e) \<longrightarrow>
          e \<notin> keys (object_to_type (generate_object_type_map g))
          \<and> dd_get (object_to_type (generate_object_type_map g)) e = {})"
proof -
  let ?init = "\<lparr>object_to_type = DictDefault_init {}, type_to_object = DictDefault_init {}\<rparr>
      :: resource set type_map"
  have d: "default_val (object_to_type ?init) = {}" "default_val (type_to_object ?init) = {}"
    by (simp_all add: DictDefault_init_def)
  have e0: "dd_get (DictDefault_init {} :: (resource, resource set) DictDefault) e = {}" for e
    by (simp add: DictDefault_init_def dd_get_items)
  have o2t_all: "dd_get (object_to_type (generate_object_type_map g)) e =
      (if e \<in> set (subjects g) \<and> isinstance_URIRef e then set (ctypes_of g e) else {})" for e
    by (simp add: generate_object_type_map_def object_type_loop_o2t [OF d] e0)
  have o2t: "dd_get (object_to_type (generate_object_type_map g)) (URIRef u)
      = set (ctypes_of g (URIRef u))"
    using assms by (simp add: o2t_all)
  have cs: "set (ctypes_of g (URIRef u)) =
        (if set (objects_of g (URIRef u) RDF_type) = {} then {RDFS_Class}
         else set (objects_of g (URIRef u) RDF_type))"
    by (simp add: ctypes_of_def Let_def)
  have ne: "set (ctypes_of g (URIRef u)) \<noteq> {}"
    by (simp add: ctypes_of_nonempty)
  have k: "URIRef u \<in> keys (object_to_type (generate_object_type_map g))"
    using assms by (simp add: object_type_map_keys)
  have t2o_all: "dd_get (type_to_object (generate_object_type_map g)) c =
      {e \<in> set (subjects g). isinstance_URIRef e \<and> c \<in> set (ctypes_of g e)}" for c
    by (simp add: generate_object_type_map_def object_type_loop_t2o [OF d] e0)
  have t2o_o2t: "dd_get (type_to_object (generate_object_type_map g)) c =
          {e \<in> set (subjects g). isinstance_URIRef e
             \<and> c \<in> dd_get (object_to_type (generate_object_type_map g)) e}" for c
    unfolding t2o_all using o2t_all by auto
  have t2o: "c \<in> keys (type_to_object (generate_object_type_map g))
          \<and> URIRef u \<in> dd_get (type_to_object (generate_object_type_map g)) c"
    if "c \<in> set (ctypes_of g (URIRef u))" for c
    using assms that
    by (auto simp: generate_object_type_map_def object_type_loop_t2o [OF d]
        object_type_loop_t2o_keys e0)
  have skip: "e \<notin> keys (object_to_type (generate_object_type_map g))
          \<and> dd_get (object_to_type (generate_object_type_map g)) e = {}"
    if "\<not> (e \<in> set (subjects g) \<and> isinstance_URIRef e)" for e
    using that by (auto simp: object_type_map_keys o2t_all)
  from o2t cs ne k t2o t2o_o2t skip show ?thesis by (simp del: set_empty)
qed

theorem object_type_map_classes_witness:
  "URIRef ''e1'' \<in> set (subjects typed_graph)
   \<and> URIRef ''e2'' \<in> set (subjects typed_graph)
   \<and> dd_get (object_to_type (generate_object_type_map typed_graph)) (URIRef ''e1'')
       = {URIRef ''Student'', URIRef ''Person''}
   \<and> dd_get (object_to_type (generate_object_type_map typed_graph)) (URIRef ''e2'')
       = {RDFS_Class}
   \<and> URIRef ''e1''
       \<in> dd_get (type_to_object (generate_object_type_map typed_graph)) (URIRef ''Person'')
   \<and> URIRef ''e2''
       \<in> dd_get (type_to_object (generate_object_type_map typed_graph)) RDFS_Class"
proof -
  have s1: "URIRef ''e1'' \<in> set (subjects typed_graph)"
    and s2: "URIRef ''e2'' \<in> set (subjects typed_graph)"
    by (simp_all add: typed_graph_def subjects_def)
  have c1: "set (objects_of typed_graph (URIRef ''e1'') RDF_type)
      = {URIRef ''Student'', URIRef ''Person''}"
    and c2: "set (objects_of typed_graph (URIRef ''e2'') RDF_type) = {}"
    by (simp_all add: typed_graph_def objects_of_def RDF_type_def)
  from object_type_map_classes [OF s1] object_type_map_classes [OF s2] s1 s2 c1 c2
  show ?thesis by simp
qed

subsection \<open>The support counter\<close>

lemma predicate_step_other:
  "p \<noteq> p' \<Longrightarrow> predicate_step pm (s, p', ob) p = pm p"
  by (simp add: predicate_step_def Let_def)

lemma predicate_step_forward_keys:
  "\<exists>en. predicate_step pm (s, p, ob) p = Some en
     \<and> keys (forwards en) =
         insert s (case pm p of None \<Rightarrow> {} | Some e0 \<Rightarrow> keys (forwards e0))"
  by (auto simp: predicate_step_def Let_def keys_def setitem_def dd_add_def DictDefault_init_def
      split: option.split)

lemma predicate_loop_forward_keys:
  "(case predicate_loop pm ts p of None \<Rightarrow> {} | Some en \<Rightarrow> keys (forwards en)) =
     (case pm p of None \<Rightarrow> {} | Some e0 \<Rightarrow> keys (forwards e0))
       \<union> {s. \<exists>ob. (s, p, ob) \<in> set ts}"
proof (induction ts arbitrary: pm)
  case Nil
  then show ?case by simp
next
  case (Cons t ts)
  obtain s' p' o' where t: "t = (s', p', o')" by (cases t) auto
  show ?case
  proof (cases "p' = p")
    case True
    from predicate_step_forward_keys [of pm s' p o'] obtain en where
      "predicate_step pm (s', p, o') p = Some en"
      "keys (forwards en) = insert s' (case pm p of None \<Rightarrow> {} | Some e0 \<Rightarrow> keys (forwards e0))"
      by blast
    with Cons.IH [of "predicate_step pm t"] t True show ?thesis by auto
  next
    case False
    then have "predicate_step pm t p = pm p"
      using t by (simp add: predicate_step_other)
    with Cons.IH [of "predicate_step pm t"] t False show ?thesis by auto
  qed
qed

lemma predicate_loop_dom:
  "dom (predicate_loop pm ts) = dom pm \<union> {p. \<exists>s ob. (s, p, ob) \<in> set ts}"
proof (induction ts arbitrary: pm)
  case Nil
  then show ?case by simp
next
  case (Cons t ts)
  obtain s' p' o' where t: "t = (s', p', o')" by (cases t) auto
  have "dom (predicate_step pm t) = insert p' (dom pm)"
    using t by (auto simp: predicate_step_def Let_def)
  with Cons.IH [of "predicate_step pm t"] t show ?case by auto
qed

text \<open>
  On an index built from a graph, the count is the number of subjects of the domain with
  an outgoing edge of the predicate, and a predicate of no triple raises KeyError.
\<close>

lemma generated_predicate_frequency:
  "predicate_frequency (generate_predicate_map g) a D =
     (if \<exists>s ob. (s, predicate a, ob) \<in> set g
      then Inr (card {s \<in> D. \<exists>ob. (s, predicate a, ob) \<in> set g})
      else Inl KeyError)"
proof -
  let ?pm = "generate_predicate_map g"
  have d: "(?pm (predicate a) = None) = (\<not> (\<exists>s ob. (s, predicate a, ob) \<in> set g))"
    using predicate_loop_dom [of Map.empty g]
    by (auto simp: generate_predicate_map_def domIff)
  have k: "(case ?pm (predicate a) of None \<Rightarrow> {} | Some en \<Rightarrow> keys (forwards en)) =
      {s. \<exists>ob. (s, predicate a, ob) \<in> set g}"
    using predicate_loop_forward_keys [of Map.empty g "predicate a"]
    by (simp add: generate_predicate_map_def)
  show ?thesis
  proof (cases "?pm (predicate a)")
    case None
    with d show ?thesis by (simp add: predicate_frequency_def)
  next
    case (Some en)
    with k have "keys (forwards en) = {s. \<exists>ob. (s, predicate a, ob) \<in> set g}" by simp
    moreover have "D \<inter> {s. \<exists>ob. (s, predicate a, ob) \<in> set g}
        = {s \<in> D. \<exists>ob. (s, predicate a, ob) \<in> set g}"
      by auto
    ultimately show ?thesis using Some d by (simp add: predicate_frequency_def)
  qed
qed

lemma example_graph_entry:
  "\<exists>en. generate_predicate_map example_graph (URIRef ''p'') = Some en
     \<and> keys (forwards en) = {URIRef ''a'', URIRef ''d''}"
  by (auto simp: example_graph_def generate_predicate_map_def predicate_step_def Let_def
      keys_def setitem_def dd_add_def DictDefault_init_def)

text \<open>
  Claim C3, as stated, fails where the predicate of the assertion has no entry: the
  index is a plain dictionary, and subscripting it raises KeyError; no count is returned.
\<close>

theorem predicate_frequency_counterexample:
  "predicate_frequency (generate_predicate_map example_graph) q_assertion
     {URIRef ''a'', URIRef ''d'', URIRef ''x''} = Inl KeyError
   \<and> predicate_frequency (generate_predicate_map example_graph) q_assertion
     {URIRef ''a'', URIRef ''d'', URIRef ''x''} \<noteq> Inr 0"
  by (simp add: generated_predicate_frequency q_assertion_def example_graph_def)

text \<open>
  Claim C3, amended. For a finite domain: when the predicate of the assertion has an
  entry in the index, the result is the number of elements of the domain that are keys
  of the forward map of that entry; it is at most the size of the domain, and 0 when no
  element of the domain is such a key. When the predicate has no entry, KeyError is
  raised.
\<close>

theorem predicate_frequency_support:
  "finite D \<Longrightarrow>
   (case pm (predicate a) of
      None \<Rightarrow> predicate_frequency pm a D = Inl KeyError
    | Some entry \<Rightarrow>
        predicate_frequency pm a D = Inr (card (D \<inter> keys (forwards entry)))
        \<and> card (D \<inter> keys (forwards entry)) \<le> card D
        \<and> (D \<inter> keys (forwards entry) = {} \<longrightarrow> predicate_frequency pm a D = Inr 0))"
  by (auto simp: predicate_frequency_def card_mono split: option.split)

theorem predicate_frequency_support_witness:
  "finite {URIRef ''a'', URIRef ''d'', URIRef ''x''}
   \<and> predicate_frequency (generate_predicate_map example_graph) p_assertion
       {URIRef ''a'', URIRef ''d'', URIRef ''x''} = Inr 2
   \<and> (2::nat) \<le> card {URIRef ''a'', URIRef ''d'', URIRef ''x''}"
proof -
  let ?D = "{URIRef ''a'', URIRef ''d'', URIRef ''x''}"
  have fin: "finite ?D" by simp
  from example_graph_entry obtain en where
    en: "generate_predicate_map example_graph (URIRef ''p'') = Some en"
    and ks: "keys (forwards en) = {URIRef ''a'', URIRef ''d''}" by blast
  have pa: "predicate p_assertion = URIRef ''p''" by (simp add: p_assertion_def)
  have inter: "?D \<inter> {URIRef ''a'', URIRef ''d''} = {URIRef ''a'', URIRef ''d''}" by auto
  from predicate_frequency_support [OF fin, of "generate_predicate_map example_graph" p_assertion]
    en ks pa inter
  show ?thesis by simp
qed

section \<open>Properties of the value normalizer\<close>

lemmas example_env_simps =
  example_env_def XSD_string_def XSD_integer_def XSD_dateTime_def XSD_gMonthDay_def

lemma cast_xsd_alice: "cast_xsd example_env (PTerm alice) XSD_string = Inr (PStr ''alice'')"
  by (simp add: cast_xsd_def example_env_simps alice_def
      str_lower_def str_strip_def lower_char_def isspace_def)

lemma cast_xsd_ALICE: "cast_xsd example_env (PTerm ALICE) XSD_string = Inr (PStr ''alice'')"
  by (simp add: cast_xsd_def example_env_simps ALICE_def
      str_lower_def str_strip_def lower_char_def isspace_def)


lemma except_ValueError_PTerm: "except_ValueError r PObj n = Inr (PTerm t) \<Longrightarrow> n = PTerm t"
  by (auto simp: except_ValueError_def split: sum.splits if_splits)

lemma term_toPython_PTerm: "term_toPython env t = PTerm t' \<Longrightarrow> t' = t"
  by (cases t) (auto split: option.splits sum.splits)

lemma cast_xsd_PTerm_result: "cast_xsd env (PTerm t) dtype = Inr (PTerm t') \<Longrightarrow> t' = t"
  apply (auto simp: cast_xsd_def Let_def split: if_splits dest!: except_ValueError_PTerm)
  apply (auto dest: term_toPython_PTerm split: pyval.splits if_splits)
  done




text \<open>
  Claim C5, as stated, fails: the result of \<^verbatim>\<open>cast_xsd\<close> on the literal \<^verbatim>\<open>"Alice"\<close> in
  the string family is the Python string \<^verbatim>\<open>"alice"\<close>, and \<^verbatim>\<open>cast_xsd\<close> applied to that
  string raises AttributeError, since a \<^verbatim>\<open>str\<close> has no method \<^verbatim>\<open>toPython\<close>.
\<close>

theorem cast_xsd_not_idempotent:
  "cast_xsd example_env (PTerm alice) XSD_string = Inr (PStr ''alice'')
   \<and> cast_xsd example_env (PStr ''alice'') XSD_string = Inl AttributeError
   \<and> (case cast_xsd example_env (PTerm alice) XSD_string of
         Inl e \<Rightarrow> Inl e
       | Inr w \<Rightarrow> cast_xsd example_env w XSD_string)
      \<noteq> cast_xsd example_env (PTerm alice) XSD_string"
proof -
  have twice: "cast_xsd example_env (PStr ''alice'') XSD_string = Inl AttributeError"
    by (simp add: cast_xsd_def)
  with cast_xsd_alice show ?thesis by simp
qed

text \<open>
  Claim C5, amended. When \<^verbatim>\<open>cast_xsd\<close> returns a value, applying it to that value with
  the same datatype returns the same value if the value is an rdflib term (the literal
  came back as it was), and raises AttributeError if it is a plain Python value.
\<close>

theorem cast_xsd_on_own_result:
  "cast_xsd env v dtype = Inr w \<Longrightarrow>
   cast_xsd env w dtype = (case w of PTerm t \<Rightarrow> Inr w | _ \<Rightarrow> Inl AttributeError)"
proof (cases w)
  case (PTerm t')
  assume r: "cast_xsd env v dtype = Inr w"
  then obtain t where v: "v = PTerm t"
    by (cases v) (auto simp: cast_xsd_def)
  with r PTerm have "t' = t" by (auto dest: cast_xsd_PTerm_result)
  with r v PTerm show ?thesis by simp
next
  case (PStr s)
  then show ?thesis by (simp add: cast_xsd_def)
next
  case (PObj ob)
  then show ?thesis by (simp add: cast_xsd_def)
qed

theorem cast_xsd_on_own_result_witness:
  "cast_xsd example_env (PTerm (Literal ''abc'' (Some XSD_integer) None)) XSD_integer
     = Inr (PTerm (Literal ''abc'' (Some XSD_integer) None))
   \<and> cast_xsd example_env (PTerm ALICE) XSD_string = Inr (PStr ''alice'')
   \<and> cast_xsd example_env (PStr ''alice'') XSD_string = Inl AttributeError"
proof -
  let ?t = "Literal ''abc'' (Some XSD_integer) None"
  have once: "cast_xsd example_env (PTerm ?t) XSD_integer = Inr (PTerm ?t)"
    by (simp add: cast_xsd_def example_env_simps except_ValueError_def)
  from cast_xsd_on_own_result [OF cast_xsd_ALICE] once show ?thesis
    by (simp add: cast_xsd_ALICE)
qed

section \<open>Properties of the equivalence engine\<close>

lemma names_cache_alice:
  "alice \<in> keys (object_to_type (data_type_map names_cache))
   \<and> dd_get (object_to_type (data_type_map names_cache)) alice = Some XSD_string"
  by (simp add: names_cache_def names_graph_def generate_data_type_map_def objects_def
      data_type_step_def in_type_map_keys_def type_map_keys_def term_eq_str_def literal_dtype_def
      alice_def ALICE_def Let_def setitem_def dd_add_def DictDefault_init_def keys_def
      dd_get_items)

text \<open>
  Claim C2, as stated, fails: \<^verbatim>\<open>isEquivalent\<close> never calls \<^verbatim>\<open>cast_xsd\<close>. The literals
  \<^verbatim>\<open>"Alice"\<close> and \<^verbatim>\<open>"ALICE"\<close> both normalize to \<^verbatim>\<open>"alice"\<close> in the string family, but
  they are different terms, neither is a type variable, and the result is False.
\<close>

theorem isEquivalent_Alice_ALICE:
  "cast_xsd example_env (PTerm alice) XSD_string = Inr (PStr ''alice'')
   \<and> cast_xsd example_env (PTerm ALICE) XSD_string = Inr (PStr ''alice'')
   \<and> \<not> isEquivalent (hasName_assertion alice) (hasName_assertion ALICE) names_cache"
proof -
  have "\<not> isEquivalent (hasName_assertion alice) (hasName_assertion ALICE) names_cache"
    by (simp add: isEquivalent_def hasName_assertion_def alice_def ALICE_def)
  with cast_xsd_alice cast_xsd_ALICE show ?thesis by simp
qed

text \<open>
  Claim C2, amended. For two assertions whose left-hand sides are ObjectTypeVariables of
  the same type and whose predicates are the same, with concrete literals as right-hand
  sides, \<^verbatim>\<open>isEquivalent\<close> compares the literals as they are, without normalization: it
  returns True exactly when they are the same term.
\<close>

theorem isEquivalent_literals_unnormalized:
  "lhs A = TypeVariable ObjectTypeVariable t \<Longrightarrow>
   lhs B = TypeVariable ObjectTypeVariable t \<Longrightarrow>
   predicate A = predicate B \<Longrightarrow>
   rhs A = Resource (Literal la da ga) \<Longrightarrow>
   rhs B = Resource (Literal lb db gb) \<Longrightarrow>
   isEquivalent A B c = (Literal la da ga = Literal lb db gb)"
  by (simp add: isEquivalent_def)

theorem isEquivalent_literals_unnormalized_witness:
  "lhs (hasName_assertion alice) = TypeVariable ObjectTypeVariable (URIRef ''Person'')
   \<and> predicate (hasName_assertion alice) = predicate (hasName_assertion ALICE)
   \<and> rhs (hasName_assertion alice) = Resource (Literal ''Alice'' (Some XSD_string) None)
   \<and> rhs (hasName_assertion ALICE) = Resource (Literal ''ALICE'' (Some XSD_string) None)
   \<and> isEquivalent (hasName_assertion alice) (hasName_assertion alice) names_cache
   \<and> isEquivalent (hasName_assertion alice) (hasName_assertion ALICE) names_cache = False"
proof -
  have l: "lhs (hasName_assertion n) = TypeVariable ObjectTypeVariable (URIRef ''Person'')"
    and p: "predicate (hasName_assertion n) = URIRef ''hasName''"
    and r: "rhs (hasName_assertion n) = Resource n" for n
    by (simp_all add: hasName_assertion_def)
  have ra: "rhs (hasName_assertion alice) = Resource (Literal ''Alice'' (Some XSD_string) None)"
    and rA: "rhs (hasName_assertion ALICE) = Resource (Literal ''ALICE'' (Some XSD_string) None)"
    by (simp_all add: r alice_def ALICE_def)
  have pp: "predicate (hasName_assertion alice) = predicate (hasName_assertion ALICE)"
    and pq: "predicate (hasName_assertion alice) = predicate (hasName_assertion alice)"
    by (simp_all add: p)
  from isEquivalent_literals_unnormalized [OF l l pq ra ra, of names_cache]
    isEquivalent_literals_unnormalized [OF l l pp ra rA, of names_cache]
    l pp ra rA
  show ?thesis by simp
qed

text \<open>
  Claim C9. \<^verbatim>\<open>isEquivalent\<close> is symmetric in its two assertions: the test on the
  left-hand sides and predicates is symmetric, equality of the right-hand sides and of
  their types is symmetric, and \<^verbatim>\<open>isSameType\<close> is tried in both orientations.
\<close>

theorem isEquivalent_symmetric: "isEquivalent A B c = isEquivalent B A c"
  by (auto simp: isEquivalent_def)

theorem isEquivalent_symmetric_witness:
  "isEquivalent string_var_assertion (hasName_assertion alice) names_cache
   \<and> isEquivalent (hasName_assertion alice) string_var_assertion names_cache"
proof -
  have "isEquivalent string_var_assertion (hasName_assertion alice) names_cache"
    using names_cache_alice
    by (simp add: isEquivalent_def string_var_assertion_def hasName_assertion_def alice_def)
  with isEquivalent_symmetric [of string_var_assertion "hasName_assertion alice" names_cache]
  show ?thesis by simp
qed

end
